theory Spec2Isabelle
  imports Complex_Main "HOL-Library.Word"
begin

section \<open>Python values and configuration\<close>

text \<open>
  The face pipeline of the attendance tracker lives in \<^verbatim>\<open>app/face/engine.py\<close>,
  \<^verbatim>\<open>app/face/liveness.py\<close> and the recognition loop of \<^verbatim>\<open>app/face/routes.py\<close>.
  Python floats (and numpy's float64) are modelled by \<^typ>\<open>real\<close>, Python's unbounded
  integers by \<^typ>\<open>int\<close>, byte strings by lists of 8-bit words, and \<^verbatim>\<open>str\<close> by
  \<^typ>\<open>string\<close>. An exception raised by a library call is the left injection of a sum,
  carrying the text that \<^verbatim>\<open>str(e)\<close> would give.
\<close>

type_synonym byte = "8 word"

type_synonym encoding = "real list"

text \<open>A face location is the tuple \<^verbatim>\<open>(top, right, bottom, left)\<close> of pixel offsets.\<close>

type_synonym face_location = "int \<times> int \<times> int \<times> int"

text \<open>
  \<^verbatim>\<open>x or d\<close> on an optional float: \<^verbatim>\<open>None\<close> and \<^verbatim>\<open>0\<close> (also \<^verbatim>\<open>0.0\<close>) are falsy and
  give \<^verbatim>\<open>d\<close>; every other float is truthy and is returned itself.
\<close>

definition py_or :: "real option \<Rightarrow> real \<Rightarrow> real" where
  "py_or x d = (case x of None \<Rightarrow> d | Some v \<Rightarrow> if v = 0 then d else v)"

text \<open>The same operator on an optional string: \<^verbatim>\<open>None\<close> and the empty string are falsy.\<close>

definition py_or_str :: "string option \<Rightarrow> string \<Rightarrow> string" where
  "py_or_str x d = (case x of None \<Rightarrow> d | Some v \<Rightarrow> if v = [] then d else v)"

text \<open>
  The face-recognition settings of \<^verbatim>\<open>config.py\<close>. Each is read from the process
  environment; \<open>default_Config\<close> holds the values used when the variables are not set.
\<close>

record Config =
  FACE_TOLERANCE :: real
  FACE_ENCODING_MODEL :: string
  MAX_IMAGE_SIZE_MB :: int

definition default_Config :: Config where
  "default_Config =
     \<lparr> FACE_TOLERANCE = 6 / 10, FACE_ENCODING_MODEL = ''small'', MAX_IMAGE_SIZE_MB = 5 \<rparr>"

section \<open>The face engine\<close>

record FaceEngine =
  tolerance :: real
  model :: string

text \<open>\<^verbatim>\<open>FaceEngine.__init__(self, tolerance=None, model=None)\<close>\<close>

definition FaceEngine_init :: "Config \<Rightarrow> real option \<Rightarrow> string option \<Rightarrow> FaceEngine" where
  "FaceEngine_init cfg tolerance_arg model_arg =
     \<lparr> tolerance = py_or tolerance_arg (FACE_TOLERANCE cfg),
       model = py_or_str model_arg (FACE_ENCODING_MODEL cfg) \<rparr>"

text \<open>
  \<^verbatim>\<open>face_recognition.face_distance([known], unknown)[0]\<close> is
  \<^verbatim>\<open>np.linalg.norm(known - unknown)\<close>: the Euclidean norm of the componentwise
  difference. The encodings handed to it are the encoder's vectors, all of the same
  length (128); on lists of different lengths the model reads the common prefix.
\<close>

definition face_distance :: "encoding \<Rightarrow> encoding \<Rightarrow> real" where
  "face_distance known unknown =
     sqrt (sum_list (map (\<lambda>(a, b). (a - b)\<^sup>2) (zip known unknown)))"

text \<open>
  \<^verbatim>\<open>face_recognition.compare_faces([known], unknown, tolerance=tol)[0]\<close> is
  \<^verbatim>\<open>face_distance([known], unknown)[0] <= tol\<close>.
\<close>

definition lib_compare_faces :: "encoding \<Rightarrow> encoding \<Rightarrow> real \<Rightarrow> bool" where
  "lib_compare_faces known unknown tol = (face_distance known unknown \<le> tol)"

text \<open>The dictionary returned by \<^verbatim>\<open>compare_faces\<close>, with its three keys.\<close>

record match_result =
  match :: bool
  confidence :: real
  distance :: real

definition compare_faces ::
  "FaceEngine \<Rightarrow> encoding \<Rightarrow> encoding \<Rightarrow> real option \<Rightarrow> match_result" where
  "compare_faces self known_encoding unknown_encoding tolerance_arg =
     (let tol = py_or tolerance_arg (tolerance self);
          matches0 = lib_compare_faces known_encoding unknown_encoding tol;
          d = face_distance known_encoding unknown_encoding
      in \<lparr> match = matches0, confidence = 1 - d, distance = d \<rparr>)"

text \<open>\<^verbatim>\<open>detect_faces\<close> hands the image to the library's detector with the engine's model.\<close>

definition detect_faces ::
  "('img \<Rightarrow> string \<Rightarrow> face_location list) \<Rightarrow> FaceEngine \<Rightarrow> 'img \<Rightarrow> face_location list" where
  "detect_faces face_locations self img = face_locations img (model self)"

text \<open>
  The two shapes of dictionary that \<^verbatim>\<open>validate_image_quality\<close> returns:
  \<^verbatim>\<open>{'valid': False, 'error': msg}\<close> and
  \<^verbatim>\<open>{'valid': True, 'face_location': box, 'dimensions': {'width': w, 'height': h}}\<close>.
\<close>

datatype quality = Invalid string | Valid face_location int int

definition validate_image_quality ::
  "('img \<Rightarrow> string \<Rightarrow> face_location list) \<Rightarrow> FaceEngine \<Rightarrow> 'img \<Rightarrow> int \<Rightarrow> quality" where
  "validate_image_quality face_locations self img min_face_size =
     (let faces = detect_faces face_locations self img in
      case faces of
        [] \<Rightarrow> Invalid ''No face detected''
      | face0 # _ \<Rightarrow>
          if length faces > 1 then Invalid ''Multiple faces detected''
          else (case face0 of (f_top, f_right, f_bottom, f_left) \<Rightarrow>
            (let face_width = f_right - f_left;
                 face_height = f_bottom - f_top
             in if face_width < min_face_size \<or> face_height < min_face_size
                then Invalid ''Face too small''
                else Valid face0 face_width face_height)))"

subsection \<open>Preprocessing\<close>

text \<open>
  What the code observes of a decoded PIL image: its mode, what \<^verbatim>\<open>img._getexif()\<close>
  does (raise, return \<^verbatim>\<open>None\<close>, or return the tag dictionary), the rotation applied
  to it so far in degrees, and its pixel payload.
\<close>

record pil_image =
  mode :: string
  getexif :: "string + (nat \<rightharpoonup> nat) option"
  rotation :: int
  pixels :: "byte list"

definition convert_RGB :: "pil_image \<Rightarrow> pil_image" where
  "convert_RGB img = img\<lparr>mode := ''RGB''\<rparr>"

definition rotate_img :: "int \<Rightarrow> pil_image \<Rightarrow> pil_image" where
  "rotate_img angle img = img\<lparr>rotation := rotation img + angle\<rparr>"

text \<open>
  The library calls whose outcome depends on the bytes: \<^verbatim>\<open>Image.open\<close>,
  \<^verbatim>\<open>img.save(output, format='JPEG', quality=85)\<close> and
  \<^verbatim>\<open>face_recognition.load_image_file\<close>. Each may raise.
\<close>

record ('jpg, 'arr) imaging =
  Image_open :: "byte list \<Rightarrow> string + pil_image"
  save_jpeg :: "pil_image \<Rightarrow> string + 'jpg"
  load_image_file :: "'jpg \<Rightarrow> string + 'arr"

text \<open>The library calls made by one run, in order.\<close>

datatype lib_call =
  Call_Image_open | Call_convert | Call_rotate int | Call_save | Call_load_image_file

text \<open>
  Names bound when the orientation block of \<^verbatim>\<open>preprocess_image\<close> runs: the module's
  imports and class, and the function's parameters and locals, among them the two names
  bound by \<^verbatim>\<open>from PIL.ExifTags import TAGS, GPSTAGS\<close>. Reading any other name (none of
  those used here is a builtin) raises \<^verbatim>\<open>NameError\<close>.
\<close>

definition engine_module_names :: "string list" where
  "engine_module_names =
     [''os'', ''np'', ''face_recognition'', ''Image'', ''BytesIO'', ''Config'', ''FaceEngine'']"

definition preprocess_image_locals :: "string list" where
  "preprocess_image_locals =
     [''self'', ''image_bytes'', ''max_size_mb'', ''img'', ''TAGS'', ''GPSTAGS'']"

definition lookup_name :: "string \<Rightarrow> string + unit" where
  "lookup_name n =
     (if n \<in> set (preprocess_image_locals @ engine_module_names) then Inr ()
      else Inl (''name '' @ n @ '' is not defined''))"

text \<open>The key of \<^verbatim>\<open>TAGS\<close> whose value is \<^verbatim>\<open>'Orientation'\<close> (0x0112).\<close>

definition orientation_tag :: nat where
  "orientation_tag = 274"

text \<open>
  The body of the inner \<^verbatim>\<open>try\<close>: the loop over \<^verbatim>\<open>ExifTags.TAGS.keys()\<close>, then
  \<^verbatim>\<open>img._getexif()\<close> and the three rotations. The result is the image and the library
  calls made, or the exception.
\<close>

definition orient_try :: "pil_image \<Rightarrow> string + (pil_image \<times> lib_call list)" where
  "orient_try img =
     (case lookup_name ''ExifTags'' of
        Inl e \<Rightarrow> Inl e
      | Inr _ \<Rightarrow>
          (case getexif img of
             Inl e \<Rightarrow> Inl e
           | Inr None \<Rightarrow> Inr (img, [])
           | Inr (Some exif) \<Rightarrow>
               (case exif orientation_tag of
                  None \<Rightarrow> Inr (img, [])
                | Some v \<Rightarrow>
                    if v = 3 then Inr (rotate_img 180 img, [Call_rotate 180])
                    else if v = 6 then Inr (rotate_img 270 img, [Call_rotate 270])
                    else if v = 8 then Inr (rotate_img 90 img, [Call_rotate 90])
                    else Inr (img, []))))"

text \<open>The inner \<^verbatim>\<open>try ... except: pass\<close>: an exception leaves the image as it was.\<close>

definition auto_orient :: "pil_image \<Rightarrow> pil_image \<times> lib_call list" where
  "auto_orient img = (case orient_try img of Inl _ \<Rightarrow> (img, []) | Inr r \<Rightarrow> r)"

text \<open>
  \<^verbatim>\<open>preprocess_image(self, image_bytes, max_size_mb=5)\<close> returns the pair
  \<^verbatim>\<open>(image, error)\<close>; the model adds the list of library calls made. The method does
  not read \<^verbatim>\<open>self\<close>.
\<close>

definition preprocess_image ::
  "('jpg, 'arr) imaging \<Rightarrow> byte list \<Rightarrow> int
     \<Rightarrow> ('arr option \<times> string option) \<times> lib_call list" where
  "preprocess_image io image_bytes max_size_mb =
     (if int (length image_bytes) > max_size_mb * 1024 * 1024
      then ((None, Some ''Image too large''), [])
      else
        (case Image_open io image_bytes of
           Inl e \<Rightarrow> ((None, Some (''Image processing error: '' @ e)), [Call_Image_open])
         | Inr img0 \<Rightarrow>
             (let (img1, c1) =
                    (if mode img0 \<noteq> ''RGB'' then (convert_RGB img0, [Call_convert])
                     else (img0, []));
                  (img2, c2) = auto_orient img1;
                  calls = Call_Image_open # c1 @ c2 @ [Call_save]
              in case save_jpeg io img2 of
                   Inl e \<Rightarrow> ((None, Some (''Image processing error: '' @ e)), calls)
                 | Inr output \<Rightarrow>
                     (case load_image_file io output of
                        Inl e \<Rightarrow>
                          ((None, Some (''Image processing error: '' @ e)),
                           calls @ [Call_load_image_file])
                      | Inr arr \<Rightarrow> ((Some arr, None), calls @ [Call_load_image_file])))))"

section \<open>The liveness checker\<close>

text \<open>
  The numpy and OpenCV computations of \<^verbatim>\<open>liveness.py\<close>, each of which may raise:
  \<^item> \<open>load_array\<close>: \<^verbatim>\<open>np.array(Image.open(BytesIO(image_bytes)))\<close>;
  \<^item> \<open>laplacian_variance\<close>: \<^verbatim>\<open>cv2.Laplacian(cv2.cvtColor(a, COLOR_RGB2GRAY), CV_64F).var()\<close>;
  \<^item> \<open>skin_pixel_ratio\<close>: the share of pixels of the HSV image inside the skin range,
    \<^verbatim>\<open>np.sum(mask > 0) / mask.size\<close>;
  \<^item> \<open>crop_gray\<close>: the slice \<^verbatim>\<open>a[top:bottom, left:right]\<close> converted to grayscale;
  \<^item> \<open>haar_eyes\<close>: loading \<^verbatim>\<open>haarcascade_eye.xml\<close> and counting the regions that
    \<^verbatim>\<open>detectMultiScale(gray, 1.1, 5)\<close> finds; it raises when the cascade is not
    available.
\<close>

record 'img vision =
  load_array :: "byte list \<Rightarrow> string + 'img"
  laplacian_variance :: "'img \<Rightarrow> string + real"
  skin_pixel_ratio :: "'img \<Rightarrow> string + real"
  crop_gray :: "'img \<Rightarrow> face_location \<Rightarrow> string + 'img"
  haar_eyes :: "'img \<Rightarrow> string + nat"

definition check_blur :: "'img vision \<Rightarrow> 'img \<Rightarrow> real \<Rightarrow> string + (bool \<times> real)" where
  "check_blur cv image_array threshold =
     (case laplacian_variance cv image_array of
        Inl e \<Rightarrow> Inl e
      | Inr fm \<Rightarrow> Inr (fm > threshold, fm))"

definition check_color_distribution :: "'img vision \<Rightarrow> 'img \<Rightarrow> string + (bool \<times> real)" where
  "check_color_distribution cv image_array =
     (case skin_pixel_ratio cv image_array of
        Inl e \<Rightarrow> Inl e
      | Inr skin_ratio \<Rightarrow> Inr (15 / 100 < skin_ratio \<and> skin_ratio < 60 / 100, skin_ratio))"

text \<open>
  In \<^verbatim>\<open>detect_eyes\<close> the crop and the grayscale conversion stand before the
  \<^verbatim>\<open>try\<close>; only the cascade is inside it, and its \<^verbatim>\<open>except\<close> returns
  \<^verbatim>\<open>(True, 2)\<close>.
\<close>

definition detect_eyes ::
  "'img vision \<Rightarrow> 'img \<Rightarrow> face_location \<Rightarrow> string + (bool \<times> nat)" where
  "detect_eyes cv image_array face_loc =
     (case crop_gray cv image_array face_loc of
        Inl e \<Rightarrow> Inl e
      | Inr gray \<Rightarrow>
          (case haar_eyes cv gray of
             Inl _ \<Rightarrow> Inr (True, 2)
           | Inr n \<Rightarrow> Inr (n \<ge> 2, n)))"

text \<open>The \<^verbatim>\<open>results\<close> dictionary: each entry is the check's verdict and its score.\<close>

record check_results =
  blur :: "bool \<times> real"
  color_distribution :: "bool \<times> real"
  eyes_detected :: "(bool \<times> nat) option"

text \<open>
  The dictionary returned by \<^verbatim>\<open>verify\<close>. A key the dictionary does not have is
  \<open>None\<close>; \<open>details\<close> holds the two numbers that the string
  \<^verbatim>\<open>f'{passed}/{total} checks passed'\<close> prints.
\<close>

record liveness_result =
  liveness_verified :: bool
  lv_confidence :: real
  checks :: "check_results option"
  details :: "(nat \<times> nat) option"
  error :: "string option"

text \<open>The last statements of the \<^verbatim>\<open>try\<close> body: the ratio and the returned dictionary.\<close>

definition overall :: "nat \<Rightarrow> nat \<Rightarrow> check_results \<Rightarrow> liveness_result" where
  "overall passed total_run results =
     (let conf = (if total_run > 0 then real passed / real total_run else 0)
      in \<lparr> liveness_verified = (conf \<ge> 7 / 10), lv_confidence = conf,
           checks = Some results, details = Some (passed, total_run), error = None \<rparr>)"

text \<open>The dictionary built by the \<^verbatim>\<open>except Exception as e\<close> branch.\<close>

definition error_result :: "string \<Rightarrow> liveness_result" where
  "error_result e =
     \<lparr> liveness_verified = False, lv_confidence = 0,
       checks = None, details = None, error = Some e \<rparr>"

definition count_pass :: "bool \<Rightarrow> nat" where
  "count_pass ok = (if ok then 1 else 0)"

text \<open>
  The body of the \<^verbatim>\<open>try\<close> in \<^verbatim>\<open>verify\<close>. A face location that is supplied is a
  4-tuple, which is truthy, so \<^verbatim>\<open>if face_location:\<close> is the test for \<open>Some\<close>.
\<close>

definition verify_try ::
  "'img vision \<Rightarrow> byte list \<Rightarrow> face_location option \<Rightarrow> string + liveness_result" where
  "verify_try cv image_bytes face_loc =
     (case load_array cv image_bytes of
        Inl e \<Rightarrow> Inl e
      | Inr img_array \<Rightarrow>
          (case check_blur cv img_array 100 of
             Inl e \<Rightarrow> Inl e
           | Inr (blur_ok, blur_score) \<Rightarrow>
               (case check_color_distribution cv img_array of
                  Inl e \<Rightarrow> Inl e
                | Inr (color_ok, color_ratio) \<Rightarrow>
                    (let passed = count_pass blur_ok + count_pass color_ok;
                         total_run = 2
                     in case face_loc of
                          None \<Rightarrow>
                            Inr (overall passed total_run
                              \<lparr> blur = (blur_ok, blur_score),
                                color_distribution = (color_ok, color_ratio),
                                eyes_detected = None \<rparr>)
                        | Some loc \<Rightarrow>
                            (case detect_eyes cv img_array loc of
                               Inl e \<Rightarrow> Inl e
                             | Inr (eyes_ok, eye_count) \<Rightarrow>
                                 Inr (overall (passed + count_pass eyes_ok) (total_run + 1)
                                   \<lparr> blur = (blur_ok, blur_score),
                                     color_distribution = (color_ok, color_ratio),
                                     eyes_detected = Some (eyes_ok, eye_count) \<rparr>))))))"

definition verify :: "'img vision \<Rightarrow> byte list \<Rightarrow> face_location option \<Rightarrow> liveness_result" where
  "verify cv image_bytes face_loc =
     (case verify_try cv image_bytes face_loc of
        Inl e \<Rightarrow> error_result e
      | Inr r \<Rightarrow> r)"

section \<open>The recognition loop\<close>

text \<open>
  What the loop of \<^verbatim>\<open>recognize_face\<close> reads of an enrolled user. The query has
  already kept only active, consenting users whose encoding is not null, and gives them
  in the order of the database's answer.
\<close>

record user =
  user_id :: nat
  face_encoding :: encoding

text \<open>
  The \<^verbatim>\<open>for user in enrolled_users\<close> loop, from a state
  \<^verbatim>\<open>(best_match, best_confidence)\<close>. The call to \<^verbatim>\<open>compare_faces\<close> passes no
  tolerance.
\<close>

fun best_match_loop ::
  "FaceEngine \<Rightarrow> encoding \<Rightarrow> user list \<Rightarrow> user option \<times> real \<Rightarrow> user option \<times> real" where
  "best_match_loop eng unknown_encoding [] st = st"
| "best_match_loop eng unknown_encoding (u # rest) (best_match, best_confidence) =
     (let result = compare_faces eng (face_encoding u) unknown_encoding None
      in if match result \<and> confidence result > best_confidence
         then best_match_loop eng unknown_encoding rest (Some u, confidence result)
         else best_match_loop eng unknown_encoding rest (best_match, best_confidence))"

text \<open>
  The outcome of lines 186 to 199 and of the final \<^verbatim>\<open>return\<close>: either the branch that
  records attendance for the matched user with its confidence, or the 404 answer with
  the confidence it reports.
\<close>

datatype recognition = Recognized user real | Not_recognized real

text \<open>
  The module-level \<^verbatim>\<open>face_engine = FaceEngine()\<close> of \<^verbatim>\<open>routes.py\<close>, built from
  the configuration in force when the module is imported.
\<close>

definition face_engine :: "Config \<Rightarrow> FaceEngine" where
  "face_engine cfg = FaceEngine_init cfg None None"

text \<open>
  The loop from \<^verbatim>\<open>best_match = None\<close>, \<^verbatim>\<open>best_confidence = 0\<close>, and the test
  \<^verbatim>\<open>if best_match and best_confidence >= tolerance\<close> with
  \<^verbatim>\<open>tolerance = current_app.config.get('FACE_TOLERANCE', 0.6)\<close>; the application's
  configuration is loaded from the \<^verbatim>\<open>Config\<close> class. A user object is truthy.
\<close>

definition recognize_face :: "Config \<Rightarrow> user list \<Rightarrow> encoding \<Rightarrow> recognition" where
  "recognize_face cfg enrolled_users unknown_encoding =
     (let (best_match, best_confidence) =
             best_match_loop (face_engine cfg) unknown_encoding enrolled_users (None, 0);
          tol = FACE_TOLERANCE cfg
      in case best_match of
           Some u \<Rightarrow>
             if best_confidence \<ge> tol then Recognized u best_confidence
             else Not_recognized best_confidence
         | None \<Rightarrow> Not_recognized 0)"

section \<open>Sample inputs\<close>

text \<open>
  Concrete collaborators on which the theorems below are instantiated. A JPEG already in
  RGB mode whose EXIF dictionary sets the orientation tag to 6:
\<close>

definition exif6_image :: pil_image where
  "exif6_image =
     \<lparr> mode = ''RGB'', getexif = Inr (Some [orientation_tag \<mapsto> 6]),
       rotation = 0, pixels = [1, 2, 3] \<rparr>"

text \<open>An imaging library that decodes every buffer to that image and saves and loads
  without loss, so that the loaded array shows the image that was saved.\<close>

definition exif6_imaging :: "(pil_image, pil_image) imaging" where
  "exif6_imaging =
     \<lparr> Image_open = (\<lambda>_. Inr exif6_image), save_jpeg = Inr, load_image_file = Inr \<rparr>"


text \<open>An encoding of the encoder's 128 dimensions: the given first coordinate, then zeros.\<close>

definition enc128 :: "real \<Rightarrow> encoding" where
  "enc128 x = x # replicate 127 0"

text \<open>An enrolled user with the given identifier and such an encoding.\<close>

definition enrolled :: "nat \<Rightarrow> real \<Rightarrow> user" where
  "enrolled i x = \<lparr> user_id = i, face_encoding = enc128 x \<rparr>"

text \<open>
  A vision library over images named by numbers: every buffer loads, the blur metric
  and the skin ratio are the given numbers, the crop succeeds, and the eye cascade
  behaves as given.
\<close>

definition stub_vision :: "real \<Rightarrow> real \<Rightarrow> string + nat \<Rightarrow> nat vision" where
  "stub_vision fm ratio eyes =
     \<lparr> load_array = (\<lambda>_. Inr 0), laplacian_variance = (\<lambda>_. Inr fm),
       skin_pixel_ratio = (\<lambda>_. Inr ratio), crop_gray = (\<lambda>a _. Inr a),
       haar_eyes = (\<lambda>_. eyes) \<rparr>"

section \<open>Properties of the comparison\<close>

lemma face_distance_nonneg: "0 \<le> face_distance k u"
proof -
  have "0 \<le> sum_list (map (\<lambda>(a, b). (a - b)\<^sup>2) (zip k u))"
    by (rule sum_list_nonneg) auto
  then show ?thesis
    by (simp add: face_distance_def)
qed

lemma face_distance_enc128: "face_distance (enc128 a) (enc128 b) = \<bar>a - b\<bar>"
  by (simp add: face_distance_def enc128_def sum_list_replicate)

text \<open>
  C2 (as amended). For every engine, every pair of encodings and every supplied tolerance
  other than zero, \<open>compare_faces\<close> returns the Euclidean distance of the two vectors,
  a confidence of one minus that distance, and a match exactly when the distance is at
  most the supplied tolerance.
\<close>

theorem compare_faces_supplied_tolerance:
  "t \<noteq> 0 \<Longrightarrow>
     compare_faces self k u (Some t) =
       \<lparr> match = (face_distance k u \<le> t),
         confidence = 1 - face_distance k u,
         distance = face_distance k u \<rparr>"
  by (simp add: compare_faces_def lib_compare_faces_def py_or_def Let_def)

theorem compare_faces_supplied_tolerance_witness:
  "(6 / 10 :: real) \<noteq> 0 \<and>
   compare_faces (face_engine default_Config) (enc128 (1 / 2)) (enc128 0) (Some (6 / 10)) =
     \<lparr> match = True, confidence = 1 / 2, distance = 1 / 2 \<rparr>"
proof -
  have nz: "(6 / 10 :: real) \<noteq> 0"
    by simp
  have d: "face_distance (enc128 (1 / 2)) (enc128 0) = 1 / 2"
    by (simp add: face_distance_enc128)
  show ?thesis
    using compare_faces_supplied_tolerance
      [OF nz, of "face_engine default_Config" "enc128 (1 / 2)" "enc128 0"]
    by (simp add: d)
qed

text \<open>
  C2 as stated fails for a supplied tolerance of zero: with the default configuration
  two encodings at distance one half are declared a match, although one half is more
  than the tolerance supplied.
\<close>

theorem compare_faces_zero_tolerance_counterexample:
  "match (compare_faces (face_engine default_Config) (enc128 (1 / 2)) (enc128 0) (Some 0)) \<and>
   \<not> distance (compare_faces (face_engine default_Config) (enc128 (1 / 2)) (enc128 0) (Some 0))
       \<le> 0"
  by (simp add: compare_faces_def lib_compare_faces_def py_or_def face_engine_def FaceEngine_init_def
      default_Config_def face_distance_enc128 Let_def)

text \<open>
  C3 (as amended). For every pair of encodings the confidence returned by
  \<open>compare_faces\<close> is at most one, and it is at least zero exactly when the distance is
  at most one: the value is not clamped.
\<close>

theorem compare_faces_confidence_bound:
  "confidence (compare_faces self k u t) \<le> 1 \<and>
   (0 \<le> confidence (compare_faces self k u t) \<longleftrightarrow>
      distance (compare_faces self k u t) \<le> 1)"
  using face_distance_nonneg [of k u]
  by (simp add: compare_faces_def Let_def)

text \<open>
  C3 as stated fails: two encodings at distance three give the
  confidence minus two.
\<close>

theorem compare_faces_confidence_counterexample:
  "confidence (compare_faces (face_engine default_Config) (enc128 3) (enc128 0) None) = - 2 \<and>
   \<not> 0 \<le> confidence (compare_faces (face_engine default_Config) (enc128 3) (enc128 0) None)"
  by (simp add: compare_faces_def face_distance_enc128 Let_def)

text \<open>
  C10. An engine constructed with tolerance zero holds the configured tolerance, and
  \<open>compare_faces\<close> called on it with tolerance zero declares a match exactly when the
  distance is at most the configured tolerance, which is 0.6 by default; so encodings
  at the positive distance one half match.
\<close>

theorem zero_tolerance_falls_back_to_configured:
  "tolerance (FaceEngine_init cfg (Some 0) m) = FACE_TOLERANCE cfg \<and>
   match (compare_faces (FaceEngine_init cfg (Some 0) m) k u (Some 0)) =
     (face_distance k u \<le> FACE_TOLERANCE cfg) \<and>
   FACE_TOLERANCE default_Config = 6 / 10 \<and>
   match (compare_faces (FaceEngine_init default_Config (Some 0) m) (enc128 (1 / 2)) (enc128 0) (Some 0)) \<and>
   face_distance (enc128 (1 / 2)) (enc128 0) = 1 / 2"
  by (simp add: compare_faces_def lib_compare_faces_def py_or_def face_engine_def FaceEngine_init_def
      default_Config_def face_distance_enc128 Let_def)

section \<open>Properties of validation and preprocessing\<close>

text \<open>
  C9. \<open>validate_image_quality\<close> answers \<open>No face detected\<close> when the detector finds no
  box, \<open>Multiple faces detected\<close> when it finds more than one, \<open>Face too small\<close> when
  the width or the height of the single box is below \<open>min_face_size\<close>, and otherwise
  succeeds with that box and its width and height, both at least \<open>min_face_size\<close>.
\<close>

theorem validate_image_quality_outcomes:
  "(face_locations img (model self) = [] \<longrightarrow>
      validate_image_quality face_locations self img m = Invalid ''No face detected'') \<and>
   (1 < length (face_locations img (model self)) \<longrightarrow>
      validate_image_quality face_locations self img m = Invalid ''Multiple faces detected'') \<and>
   (face_locations img (model self) = [(t, r, b, l)] \<and> (r - l < m \<or> b - t < m) \<longrightarrow>
      validate_image_quality face_locations self img m = Invalid ''Face too small'') \<and>
   (face_locations img (model self) = [(t, r, b, l)] \<and> \<not> (r - l < m \<or> b - t < m) \<longrightarrow>
      validate_image_quality face_locations self img m = Valid (t, r, b, l) (r - l) (b - t) \<and>
      m \<le> r - l \<and> m \<le> b - t)"
proof (cases "face_locations img (model self)")
  case Nil
  then show ?thesis
    by (simp add: validate_image_quality_def detect_faces_def)
next
  case (Cons face0 rest)
  show ?thesis
  proof (cases rest)
    case Nil
    with Cons show ?thesis
      by (cases face0) (auto simp: validate_image_quality_def detect_faces_def Let_def)
  next
    case (Cons face1 rest')
    with \<open>face_locations img (model self) = face0 # rest\<close> show ?thesis
      by (simp add: validate_image_quality_def detect_faces_def)
  qed
qed

theorem validate_image_quality_outcomes_witness:
  "validate_image_quality (\<lambda>_ _. []) (face_engine default_Config) (0 :: nat) 80
     = Invalid ''No face detected'' \<and>
   validate_image_quality (\<lambda>_ _. [(0, 100, 100, 0), (0, 300, 100, 200)])
       (face_engine default_Config) (0 :: nat) 80
     = Invalid ''Multiple faces detected'' \<and>
   validate_image_quality (\<lambda>_ _. [(0, 50, 100, 0)])
       (face_engine default_Config) (0 :: nat) 80
     = Invalid ''Face too small'' \<and>
   validate_image_quality (\<lambda>_ _. [(10, 160, 160, 10)])
       (face_engine default_Config) (0 :: nat) 80
     = Valid (10, 160, 160, 10) 150 150"
  using
    validate_image_quality_outcomes
      [of "\<lambda>_ _. []" "0 :: nat" "face_engine default_Config" 80]
    validate_image_quality_outcomes
      [of "\<lambda>_ _. [(0, 100, 100, 0), (0, 300, 100, 200)]" "0 :: nat"
          "face_engine default_Config" 80]
    validate_image_quality_outcomes
      [of "\<lambda>_ _. [(0, 50, 100, 0)]" "0 :: nat"
          "face_engine default_Config" 80 0 50 100 0]
    validate_image_quality_outcomes
      [of "\<lambda>_ _. [(10, 160, 160, 10)]" "0 :: nat"
          "face_engine default_Config" 80 10 160 160 10]
  by simp



text \<open>
  The orientation block reads the name \<open>ExifTags\<close>, which the function's import does
  not bind; the exception is swallowed, so no image is ever rotated.
\<close>

lemma auto_orient_unchanged: "auto_orient img = (img, [])"
  by (simp add: auto_orient_def orient_try_def lookup_name_def
      preprocess_image_locals_def engine_module_names_def)

lemma preprocess_image_never_rotates:
  "Call_rotate angle \<notin> set (snd (preprocess_image io image_bytes max_size_mb))"
  by (simp add: preprocess_image_def auto_orient_unchanged Let_def split: sum.splits)

text \<open>
  C7 (the code departs from the claim). A decodable RGB image whose EXIF dictionary
  carries orientation 6 comes back with no rotation applied, and no rotate call is
  made, where the claim asks for the rotation by 270 degrees.
\<close>

theorem preprocess_image_ignores_orientation:
  "preprocess_image exif6_imaging [255, 216, 255, 225] 5
     = ((Some exif6_image, None), [Call_Image_open, Call_save, Call_load_image_file]) \<and>
   (\<exists>exif. getexif exif6_image = Inr (Some exif) \<and> exif orientation_tag = Some 6) \<and>
   rotation exif6_image = 0"
  by (simp add: preprocess_image_def exif6_imaging_def auto_orient_unchanged)
    (simp add: exif6_image_def)

section \<open>Properties of the liveness checker\<close>

text \<open>The dictionary of a normal return, for a number of passes within the number of
  checks run.\<close>

lemma overall_props:
  "passed \<le> n \<Longrightarrow> 0 < n \<Longrightarrow>
     0 \<le> lv_confidence (overall passed n res) \<and>
     lv_confidence (overall passed n res) \<le> 1 \<and>
     lv_confidence (overall passed n res) = real passed / real n \<and>
     liveness_verified (overall passed n res) = (7 / 10 \<le> lv_confidence (overall passed n res)) \<and>
     checks (overall passed n res) = Some res \<and>
     details (overall passed n res) = Some (passed, n) \<and>
     error (overall passed n res) = None"
  by (simp add: overall_def Let_def)

text \<open>The confidence of a normal return is the ratio of its two counts.\<close>

lemma lv_confidence_overall:
  "lv_confidence (overall passed n res) = (if 0 < n then real passed / real n else 0)"
  by (simp add: overall_def Let_def)

text \<open>Each check adds at most one pass.\<close>

lemma count_pass_le: "count_pass b \<le> 1"
  by (simp add: count_pass_def)

text \<open>
  A normal return of the \<open>try\<close> body is built from two checks when no face location
  is given and from three when one is.
\<close>

lemma verify_try_shape:
  assumes "verify_try cv bs loc = Inr r"
  shows "(\<exists>bok bsc cok crt. loc = None \<and>
      r = overall (count_pass bok + count_pass cok) 2
          \<lparr> blur = (bok, bsc), color_distribution = (cok, crt), eyes_detected = None \<rparr>) \<or>
   (\<exists>bok bsc cok crt eok ecn l. loc = Some l \<and>
      r = overall (count_pass bok + count_pass cok + count_pass eok) 3
          \<lparr> blur = (bok, bsc), color_distribution = (cok, crt),
            eyes_detected = Some (eok, ecn) \<rparr>)"
proof (cases loc)
  case None
  with assms show ?thesis
    by (auto simp: verify_try_def Let_def split: sum.splits prod.splits)
next
  case (Some l)
  with assms have "\<exists>bok bsc cok crt eok ecn.
      r = overall (count_pass bok + count_pass cok + count_pass eok) 3
          \<lparr> blur = (bok, bsc), color_distribution = (cok, crt),
            eyes_detected = Some (eok, ecn) \<rparr>"
    by (clarsimp simp: verify_try_def Let_def split: sum.splits prod.splits) blast
  with Some show ?thesis
    by blast
qed

text \<open>The three shapes of what \<open>verify\<close> returns.\<close>

lemma verify_shape:
  "(\<exists>e. verify cv bs loc = error_result e) \<or>
   (\<exists>b c. loc = None \<and>
      verify cv bs loc =
        overall (count_pass (fst b) + count_pass (fst c)) 2
          \<lparr> blur = b, color_distribution = c, eyes_detected = None \<rparr>) \<or>
   (\<exists>b c ey l. loc = Some l \<and>
      verify cv bs loc =
        overall (count_pass (fst b) + count_pass (fst c) + count_pass (fst ey)) 3
          \<lparr> blur = b, color_distribution = c, eyes_detected = Some ey \<rparr>)"
proof (cases "verify_try cv bs loc")
  case (Inl e)
  then have "verify cv bs loc = error_result e"
    by (simp add: verify_def)
  then show ?thesis by blast
next
  case (Inr r)
  then have v: "verify cv bs loc = r"
    by (simp add: verify_def)
  from verify_try_shape [OF Inr] show ?thesis
  proof
    assume "\<exists>bok bsc cok crt. loc = None \<and>
      r = overall (count_pass bok + count_pass cok) 2
          \<lparr> blur = (bok, bsc), color_distribution = (cok, crt), eyes_detected = None \<rparr>"
    then obtain bok bsc cok crt where "loc = None"
      "r = overall (count_pass (fst (bok, bsc)) + count_pass (fst (cok, crt))) 2
          \<lparr> blur = (bok, bsc), color_distribution = (cok, crt), eyes_detected = None \<rparr>"
      by auto
    with v show ?thesis by blast
  next
    assume "\<exists>bok bsc cok crt eok ecn l. loc = Some l \<and>
      r = overall (count_pass bok + count_pass cok + count_pass eok) 3
          \<lparr> blur = (bok, bsc), color_distribution = (cok, crt),
            eyes_detected = Some (eok, ecn) \<rparr>"
    then obtain bok bsc cok crt eok ecn l where "loc = Some l"
      "r = overall (count_pass (fst (bok, bsc)) + count_pass (fst (cok, crt)) +
              count_pass (fst (eok, ecn))) 3
          \<lparr> blur = (bok, bsc), color_distribution = (cok, crt),
            eyes_detected = Some (eok, ecn) \<rparr>"
      by auto
    with v show ?thesis by blast
  qed
qed

text \<open>
  C4. For every image and face location the confidence returned by \<open>verify\<close> lies
  between zero and one, and the result is verified exactly when the confidence is at
  least 0.7. Whenever the image loads and the checks return their outcomes, the
  confidence is the number of passed checks over the number of checks run: without a
  face location the blur check (metric above 100) and the colour check (skin ratio
  strictly between 0.15 and 0.60) over two; with a face location those two and the eye
  check over three.
\<close>

theorem verify_confidence:
  "0 \<le> lv_confidence (verify cv bs loc) \<and>
   lv_confidence (verify cv bs loc) \<le> 1 \<and>
   liveness_verified (verify cv bs loc) = (7 / 10 \<le> lv_confidence (verify cv bs loc)) \<and>
   (load_array cv bs = Inr a \<and> laplacian_variance cv a = Inr fm \<and>
    skin_pixel_ratio cv a = Inr ratio \<longrightarrow>
      verify cv bs None =
        overall (count_pass (100 < fm) + count_pass (15 / 100 < ratio \<and> ratio < 60 / 100)) 2
          \<lparr> blur = (100 < fm, fm),
            color_distribution = (15 / 100 < ratio \<and> ratio < 60 / 100, ratio),
            eyes_detected = None \<rparr> \<and>
      lv_confidence (verify cv bs None) =
        real (count_pass (100 < fm) + count_pass (15 / 100 < ratio \<and> ratio < 60 / 100)) / 2) \<and>
   (load_array cv bs = Inr a \<and> laplacian_variance cv a = Inr fm \<and>
    skin_pixel_ratio cv a = Inr ratio \<and> detect_eyes cv a l = Inr (eyes_ok, eye_count) \<longrightarrow>
      verify cv bs (Some l) =
        overall (count_pass (100 < fm) + count_pass (15 / 100 < ratio \<and> ratio < 60 / 100) +
                 count_pass eyes_ok) 3
          \<lparr> blur = (100 < fm, fm),
            color_distribution = (15 / 100 < ratio \<and> ratio < 60 / 100, ratio),
            eyes_detected = Some (eyes_ok, eye_count) \<rparr> \<and>
      lv_confidence (verify cv bs (Some l)) =
        real (count_pass (100 < fm) + count_pass (15 / 100 < ratio \<and> ratio < 60 / 100) +
              count_pass eyes_ok) / 3)"
proof -
  have bounds: "0 \<le> lv_confidence (verify cv bs loc) \<and>
      lv_confidence (verify cv bs loc) \<le> 1 \<and>
      liveness_verified (verify cv bs loc) = (7 / 10 \<le> lv_confidence (verify cv bs loc))"
  proof -
    consider
      (err) e where "verify cv bs loc = error_result e"
    | (two) b c where "loc = None"
        "verify cv bs loc =
          overall (count_pass (fst b) + count_pass (fst c)) 2
            \<lparr> blur = b, color_distribution = c, eyes_detected = None \<rparr>"
    | (three) b c ey l' where "loc = Some l'"
        "verify cv bs loc =
          overall (count_pass (fst b) + count_pass (fst c) + count_pass (fst ey)) 3
            \<lparr> blur = b, color_distribution = c, eyes_detected = Some ey \<rparr>"
      using verify_shape [of cv bs loc] by blast
    then show ?thesis
    proof cases
      case err
      then show ?thesis
        by (simp add: error_result_def)
    next
      case two
      have le: "count_pass (fst b) + count_pass (fst c) \<le> 2"
        using count_pass_le [of "fst b"] count_pass_le [of "fst c"] by linarith
      show ?thesis
        using overall_props
          [OF le, of "\<lparr> blur = b, color_distribution = c, eyes_detected = None \<rparr>"] two
        by simp
    next
      case three
      have le: "count_pass (fst b) + count_pass (fst c) + count_pass (fst ey) \<le> 3"
        using count_pass_le [of "fst b"] count_pass_le [of "fst c"] count_pass_le [of "fst ey"]
        by linarith
      show ?thesis
        using overall_props
          [OF le, of "\<lparr> blur = b, color_distribution = c, eyes_detected = Some ey \<rparr>"] three
        by simp
    qed
  qed
  have two_checks: "load_array cv bs = Inr a \<and> laplacian_variance cv a = Inr fm \<and>
    skin_pixel_ratio cv a = Inr ratio \<longrightarrow>
      verify cv bs None =
        overall (count_pass (100 < fm) + count_pass (15 / 100 < ratio \<and> ratio < 60 / 100)) 2
          \<lparr> blur = (100 < fm, fm),
            color_distribution = (15 / 100 < ratio \<and> ratio < 60 / 100, ratio),
            eyes_detected = None \<rparr> \<and>
      lv_confidence (verify cv bs None) =
        real (count_pass (100 < fm) + count_pass (15 / 100 < ratio \<and> ratio < 60 / 100)) / 2"
    by (simp add: verify_def verify_try_def check_blur_def check_color_distribution_def
        lv_confidence_overall Let_def)
  have three_checks: "load_array cv bs = Inr a \<and> laplacian_variance cv a = Inr fm \<and>
    skin_pixel_ratio cv a = Inr ratio \<and> detect_eyes cv a l = Inr (eyes_ok, eye_count) \<longrightarrow>
      verify cv bs (Some l) =
        overall (count_pass (100 < fm) + count_pass (15 / 100 < ratio \<and> ratio < 60 / 100) +
                 count_pass eyes_ok) 3
          \<lparr> blur = (100 < fm, fm),
            color_distribution = (15 / 100 < ratio \<and> ratio < 60 / 100, ratio),
            eyes_detected = Some (eyes_ok, eye_count) \<rparr> \<and>
      lv_confidence (verify cv bs (Some l)) =
        real (count_pass (100 < fm) + count_pass (15 / 100 < ratio \<and> ratio < 60 / 100) +
              count_pass eyes_ok) / 3"
    by (simp add: verify_def verify_try_def check_blur_def check_color_distribution_def
        lv_confidence_overall Let_def)
  from bounds two_checks three_checks show ?thesis
    by blast
qed

text \<open>
  The scenario of the specification (blur metric 50, skin ratio 0.30, no face location):
  one check of two passes, confidence one half, not verified. With a face location, a
  sharp image and one eye found: two of three, not verified; with two eyes found: three
  of three, verified.
\<close>

theorem verify_confidence_witness:
  "lv_confidence (verify (stub_vision 50 (3 / 10) (Inr 0)) [1] None) = 1 / 2 \<and>
   \<not> liveness_verified (verify (stub_vision 50 (3 / 10) (Inr 0)) [1] None) \<and>
   lv_confidence (verify (stub_vision 150 (3 / 10) (Inr 1)) [1] (Some (10, 160, 160, 10)))
     = 2 / 3 \<and>
   \<not> liveness_verified
       (verify (stub_vision 150 (3 / 10) (Inr 1)) [1] (Some (10, 160, 160, 10))) \<and>
   lv_confidence (verify (stub_vision 150 (3 / 10) (Inr 2)) [1] (Some (10, 160, 160, 10)))
     = 1 \<and>
   liveness_verified
     (verify (stub_vision 150 (3 / 10) (Inr 2)) [1] (Some (10, 160, 160, 10)))"
  using
    verify_confidence
      [of "stub_vision 50 (3 / 10) (Inr 0)" "[1]" None 0 50 "3 / 10"]
    verify_confidence
      [of "stub_vision 150 (3 / 10) (Inr 1)" "[1]" "Some (10, 160, 160, 10)" 0 150 "3 / 10"
          "(10, 160, 160, 10)" False 1]
    verify_confidence
      [of "stub_vision 150 (3 / 10) (Inr 2)" "[1]" "Some (10, 160, 160, 10)" 0 150 "3 / 10"
          "(10, 160, 160, 10)" True 2]
  by (simp add: stub_vision_def detect_eyes_def count_pass_def overall_def)

text \<open>
  C5 (as amended). When loading the image, the blur computation, the colour computation
  or the crop of the face region raises, \<open>verify\<close> returns the dictionary with
  \<open>liveness_verified = False\<close>, confidence zero and the exception's message. An
  exception of the eye cascade, raised inside the \<open>try\<close> of \<open>detect_eyes\<close>, is not
  converted so: the eye check passes and the result carries no error. In every case
  \<open>verify\<close> returns: either what its body returned or the error dictionary.
\<close>

theorem verify_converts_exceptions:
  "(load_array cv bs = Inl e \<longrightarrow> verify cv bs loc = error_result e) \<and>
   (load_array cv bs = Inr a \<and> laplacian_variance cv a = Inl e \<longrightarrow>
      verify cv bs loc = error_result e) \<and>
   (load_array cv bs = Inr a \<and> laplacian_variance cv a = Inr fm \<and>
    skin_pixel_ratio cv a = Inl e \<longrightarrow>
      verify cv bs loc = error_result e) \<and>
   (load_array cv bs = Inr a \<and> laplacian_variance cv a = Inr fm \<and>
    skin_pixel_ratio cv a = Inr ratio \<and> crop_gray cv a l = Inl e \<longrightarrow>
      verify cv bs (Some l) = error_result e) \<and>
   (load_array cv bs = Inr a \<and> laplacian_variance cv a = Inr fm \<and>
    skin_pixel_ratio cv a = Inr ratio \<and> crop_gray cv a l = Inr g \<and>
    haar_eyes cv g = Inl e \<longrightarrow>
      error (verify cv bs (Some l)) = None \<and>
      checks (verify cv bs (Some l)) =
        Some \<lparr> blur = (100 < fm, fm),
               color_distribution = (15 / 100 < ratio \<and> ratio < 60 / 100, ratio),
               eyes_detected = Some (True, 2) \<rparr>) \<and>
   error_result e =
     \<lparr> liveness_verified = False, lv_confidence = 0, checks = None, details = None,
       error = Some e \<rparr> \<and>
   ((\<exists>r. verify_try cv bs loc = Inr r \<and> verify cv bs loc = r) \<or>
    (\<exists>e'. verify_try cv bs loc = Inl e' \<and> verify cv bs loc = error_result e'))"
proof -
  have last: "(\<exists>r. verify_try cv bs loc = Inr r \<and> verify cv bs loc = r) \<or>
    (\<exists>e'. verify_try cv bs loc = Inl e' \<and> verify cv bs loc = error_result e')"
    by (cases "verify_try cv bs loc") (simp_all add: verify_def)
  have raised: "(load_array cv bs = Inl e \<longrightarrow> verify cv bs loc = error_result e) \<and>
   (load_array cv bs = Inr a \<and> laplacian_variance cv a = Inl e \<longrightarrow>
      verify cv bs loc = error_result e) \<and>
   (load_array cv bs = Inr a \<and> laplacian_variance cv a = Inr fm \<and>
    skin_pixel_ratio cv a = Inl e \<longrightarrow>
      verify cv bs loc = error_result e) \<and>
   (load_array cv bs = Inr a \<and> laplacian_variance cv a = Inr fm \<and>
    skin_pixel_ratio cv a = Inr ratio \<and> crop_gray cv a l = Inl e \<longrightarrow>
      verify cv bs (Some l) = error_result e)"
    by (simp add: verify_def verify_try_def check_blur_def check_color_distribution_def
        detect_eyes_def)
  have swallowed: "load_array cv bs = Inr a \<and> laplacian_variance cv a = Inr fm \<and>
    skin_pixel_ratio cv a = Inr ratio \<and> crop_gray cv a l = Inr g \<and>
    haar_eyes cv g = Inl e \<longrightarrow>
      error (verify cv bs (Some l)) = None \<and>
      checks (verify cv bs (Some l)) =
        Some \<lparr> blur = (100 < fm, fm),
               color_distribution = (15 / 100 < ratio \<and> ratio < 60 / 100, ratio),
               eyes_detected = Some (True, 2) \<rparr>"
    by (simp add: verify_def verify_try_def check_blur_def check_color_distribution_def
        detect_eyes_def overall_def Let_def)
  have shape: "error_result e =
     \<lparr> liveness_verified = False, lv_confidence = 0, checks = None, details = None,
       error = Some e \<rparr>"
    by (simp add: error_result_def)
  from raised swallowed shape last show ?thesis
    by blast
qed

text \<open>An unreadable image, an image the two OpenCV conversions reject, a face box
  whose crop is empty, and a missing cascade file.\<close>

theorem verify_converts_exceptions_witness:
  "verify ((stub_vision 150 (3 / 10) (Inr 2))
       \<lparr>load_array := \<lambda>_. Inl ''cannot identify image file''\<rparr>) [1] None
     = \<lparr> liveness_verified = False, lv_confidence = 0, checks = None, details = None,
         error = Some ''cannot identify image file'' \<rparr> \<and>
   verify ((stub_vision 150 (3 / 10) (Inr 2))
       \<lparr>laplacian_variance := \<lambda>_. Inl ''Invalid number of channels''\<rparr>) [1] None
     = \<lparr> liveness_verified = False, lv_confidence = 0, checks = None, details = None,
         error = Some ''Invalid number of channels'' \<rparr> \<and>
   verify ((stub_vision 150 (3 / 10) (Inr 2))
       \<lparr>skin_pixel_ratio := \<lambda>_. Inl ''Invalid number of channels''\<rparr>) [1] None
     = \<lparr> liveness_verified = False, lv_confidence = 0, checks = None, details = None,
         error = Some ''Invalid number of channels'' \<rparr> \<and>
   verify ((stub_vision 150 (3 / 10) (Inr 2))
       \<lparr>crop_gray := \<lambda>_ _. Inl ''empty image''\<rparr>) [1] (Some (0, 0, 0, 0))
     = \<lparr> liveness_verified = False, lv_confidence = 0, checks = None, details = None,
         error = Some ''empty image'' \<rparr> \<and>
   error (verify (stub_vision 150 (3 / 10) (Inl ''cascade not available'')) [1]
            (Some (10, 160, 160, 10))) = None \<and>
   checks (verify (stub_vision 150 (3 / 10) (Inl ''cascade not available'')) [1]
            (Some (10, 160, 160, 10)))
     = Some \<lparr> blur = (True, 150), color_distribution = (True, 3 / 10),
              eyes_detected = Some (True, 2) \<rparr>"
  using
    verify_converts_exceptions
      [of "(stub_vision 150 (3 / 10) (Inr 2))
             \<lparr>load_array := \<lambda>_. Inl ''cannot identify image file''\<rparr>"
          "[1]" "''cannot identify image file''" None]
    verify_converts_exceptions
      [of "(stub_vision 150 (3 / 10) (Inr 2))
             \<lparr>laplacian_variance := \<lambda>_. Inl ''Invalid number of channels''\<rparr>"
          "[1]" "''Invalid number of channels''" None 0]
    verify_converts_exceptions
      [of "(stub_vision 150 (3 / 10) (Inr 2))
             \<lparr>skin_pixel_ratio := \<lambda>_. Inl ''Invalid number of channels''\<rparr>"
          "[1]" "''Invalid number of channels''" None 0 150]
    verify_converts_exceptions
      [of "(stub_vision 150 (3 / 10) (Inr 2))
             \<lparr>crop_gray := \<lambda>_ _. Inl ''empty image''\<rparr>"
          "[1]" "''empty image''" "Some (0, 0, 0, 0)" 0 150 "3 / 10" "(0, 0, 0, 0)"]
    verify_converts_exceptions
      [of "stub_vision 150 (3 / 10) (Inl ''cascade not available'')"
          "[1]" "''cascade not available''" "Some (10, 160, 160, 10)" 0 150 "3 / 10"
          "(10, 160, 160, 10)" 0]
  by (simp add: stub_vision_def)

text \<open>
  C5 as stated fails: with the eye cascade raising inside the liveness evaluation, on a
  sharp image with a plausible skin ratio, \<open>verify\<close> returns a verified result of
  confidence one with no error, not the denial.
\<close>

theorem verify_swallowed_exception_counterexample:
  "haar_eyes (stub_vision 150 (3 / 10) (Inl ''cascade not available'')) 0
     = Inl ''cascade not available'' \<and>
   liveness_verified
     (verify (stub_vision 150 (3 / 10) (Inl ''cascade not available'')) [1]
        (Some (10, 160, 160, 10))) \<and>
   lv_confidence
     (verify (stub_vision 150 (3 / 10) (Inl ''cascade not available'')) [1]
        (Some (10, 160, 160, 10))) = 1 \<and>
   error
     (verify (stub_vision 150 (3 / 10) (Inl ''cascade not available'')) [1]
        (Some (10, 160, 160, 10))) = None"
  by (simp add: verify_def verify_try_def stub_vision_def check_blur_def
      check_color_distribution_def detect_eyes_def count_pass_def overall_def)

text \<open>
  C6 (as amended). When the eye cascade is unavailable, \<open>detect_eyes\<close> does not raise:
  it reports a pass with an eye count of two, the check counts as one of three, and the
  result of \<open>verify\<close> is the one it gives when the detector runs and finds two eyes.
\<close>

theorem detect_eyes_fallback_passes:
  "(crop_gray cv a l = Inr g \<and> haar_eyes cv g = Inl e \<longrightarrow>
      detect_eyes cv a l = Inr (True, 2)) \<and>
   (load_array cv bs = Inr a \<and> check_blur cv a 100 = Inr (bok, bsc) \<and>
    check_color_distribution cv a = Inr (cok, crt) \<and>
    crop_gray cv a l = Inr g \<and> haar_eyes cv g = Inl e \<longrightarrow>
      verify cv bs (Some l) =
        overall (count_pass bok + count_pass cok + 1) 3
          \<lparr> blur = (bok, bsc), color_distribution = (cok, crt),
            eyes_detected = Some (True, 2) \<rparr> \<and>
      verify cv bs (Some l) = verify (cv\<lparr>haar_eyes := \<lambda>_. Inr 2\<rparr>) bs (Some l))"
  by (simp add: verify_def verify_try_def detect_eyes_def check_blur_def
      check_color_distribution_def count_pass_def Let_def)

text \<open>The amended statement at a sharp image with a plausible skin ratio.\<close>

theorem detect_eyes_fallback_passes_witness:
  "detect_eyes (stub_vision 150 (3 / 10) (Inl ''cascade not available'')) 0 (10, 160, 160, 10)
     = Inr (True, 2) \<and>
   verify (stub_vision 150 (3 / 10) (Inl ''cascade not available'')) [1] (Some (10, 160, 160, 10))
     = \<lparr> liveness_verified = True, lv_confidence = 1,
         checks = Some \<lparr> blur = (True, 150), color_distribution = (True, 3 / 10),
                         eyes_detected = Some (True, 2) \<rparr>,
         details = Some (3, 3), error = None \<rparr>"
  using detect_eyes_fallback_passes
    [of "stub_vision 150 (3 / 10) (Inl ''cascade not available'')" 0 "(10, 160, 160, 10)" 0
        "''cascade not available''" "[1]" True 150 True "3 / 10"]
  by (simp add: stub_vision_def check_blur_def check_color_distribution_def count_pass_def
      overall_def)

text \<open>
  C6 as stated fails in its last part: with the cascade unavailable the result has no
  field saying that the eye check was skipped, and equals the result of a run in which
  the detector found two eyes.
\<close>

theorem eye_fallback_no_note_counterexample:
  "verify (stub_vision 150 (3 / 10) (Inl ''cascade not available'')) [1] (Some (10, 160, 160, 10))
     = \<lparr> liveness_verified = True, lv_confidence = 1,
         checks = Some \<lparr> blur = (True, 150), color_distribution = (True, 3 / 10),
                         eyes_detected = Some (True, 2) \<rparr>,
         details = Some (3, 3), error = None \<rparr> \<and>
   verify (stub_vision 150 (3 / 10) (Inl ''cascade not available'')) [1] (Some (10, 160, 160, 10))
     = verify (stub_vision 150 (3 / 10) (Inr 2)) [1] (Some (10, 160, 160, 10))"
  by (simp add: verify_def verify_try_def stub_vision_def check_blur_def
      check_color_distribution_def detect_eyes_def count_pass_def overall_def)

section \<open>Properties of the recognition loop\<close>

text \<open>
  What the loop returns from any state: either nothing in the list beat the confidence
  it started with and the state is unchanged, or the list splits around the user it
  returns, who matches with a confidence above the starting one, above that of every
  matching user before and at least that of every matching user after.
\<close>

lemma best_match_loop_result:
  assumes "best_match_loop eng unk us (bm, bc) = (bm', bc')"
  shows "(bm' = bm \<and> bc' = bc \<and>
           (\<forall>v\<in>set us. match (compare_faces eng (face_encoding v) unk None) \<longrightarrow>
              confidence (compare_faces eng (face_encoding v) unk None) \<le> bc)) \<or>
         (\<exists>pre u post. us = pre @ u # post \<and> bm' = Some u \<and>
            match (compare_faces eng (face_encoding u) unk None) \<and>
            confidence (compare_faces eng (face_encoding u) unk None) = bc' \<and> bc < bc' \<and>
            (\<forall>v\<in>set pre. match (compare_faces eng (face_encoding v) unk None) \<longrightarrow>
               confidence (compare_faces eng (face_encoding v) unk None) < bc') \<and>
            (\<forall>v\<in>set post. match (compare_faces eng (face_encoding v) unk None) \<longrightarrow>
               confidence (compare_faces eng (face_encoding v) unk None) \<le> bc'))"
  using assms
proof (induction us arbitrary: bm bc)
  case Nil
  then show ?case by simp
next
  case (Cons w rest)
  let ?m = "\<lambda>v. match (compare_faces eng (face_encoding v) unk None)"
  let ?c = "\<lambda>v. confidence (compare_faces eng (face_encoding v) unk None)"
  show ?case
  proof (cases "?m w \<and> ?c w > bc")
    case True
    with Cons.prems have run: "best_match_loop eng unk rest (Some w, ?c w) = (bm', bc')"
      by (simp add: Let_def)
    from Cons.IH [OF run] show ?thesis
    proof
      assume "bm' = Some w \<and> bc' = ?c w \<and> (\<forall>v\<in>set rest. ?m v \<longrightarrow> ?c v \<le> ?c w)"
      with True have "w # rest = [] @ w # rest \<and> bm' = Some w \<and> ?m w \<and> ?c w = bc' \<and> bc < bc' \<and>
          (\<forall>v\<in>set []. ?m v \<longrightarrow> ?c v < bc') \<and> (\<forall>v\<in>set rest. ?m v \<longrightarrow> ?c v \<le> bc')"
        by simp
      then show ?thesis by blast
    next
      assume "\<exists>pre u post. rest = pre @ u # post \<and> bm' = Some u \<and> ?m u \<and> ?c u = bc' \<and>
          ?c w < bc' \<and> (\<forall>v\<in>set pre. ?m v \<longrightarrow> ?c v < bc') \<and>
          (\<forall>v\<in>set post. ?m v \<longrightarrow> ?c v \<le> bc')"
      then obtain pre u post where h: "rest = pre @ u # post" "bm' = Some u" "?m u" "?c u = bc'"
          "?c w < bc'" "\<forall>v\<in>set pre. ?m v \<longrightarrow> ?c v < bc'"
          "\<forall>v\<in>set post. ?m v \<longrightarrow> ?c v \<le> bc'"
        by blast
      with True have "w # rest = (w # pre) @ u # post \<and> bm' = Some u \<and> ?m u \<and> ?c u = bc' \<and>
          bc < bc' \<and> (\<forall>v\<in>set (w # pre). ?m v \<longrightarrow> ?c v < bc') \<and>
          (\<forall>v\<in>set post. ?m v \<longrightarrow> ?c v \<le> bc')"
        by auto
      then show ?thesis by blast
    qed
  next
    case False
    with Cons.prems have run: "best_match_loop eng unk rest (bm, bc) = (bm', bc')"
      by (auto simp: Let_def)
    from False have w: "?m w \<longrightarrow> ?c w \<le> bc"
      by auto
    from Cons.IH [OF run] show ?thesis
    proof
      assume "bm' = bm \<and> bc' = bc \<and> (\<forall>v\<in>set rest. ?m v \<longrightarrow> ?c v \<le> bc)"
      with w show ?thesis by simp
    next
      assume "\<exists>pre u post. rest = pre @ u # post \<and> bm' = Some u \<and> ?m u \<and> ?c u = bc' \<and>
          bc < bc' \<and> (\<forall>v\<in>set pre. ?m v \<longrightarrow> ?c v < bc') \<and>
          (\<forall>v\<in>set post. ?m v \<longrightarrow> ?c v \<le> bc')"
      then obtain pre u post where h: "rest = pre @ u # post" "bm' = Some u" "?m u" "?c u = bc'"
          "bc < bc'" "\<forall>v\<in>set pre. ?m v \<longrightarrow> ?c v < bc'"
          "\<forall>v\<in>set post. ?m v \<longrightarrow> ?c v \<le> bc'"
        by blast
      with w have "w # rest = (w # pre) @ u # post \<and> bm' = Some u \<and> ?m u \<and> ?c u = bc' \<and>
          bc < bc' \<and> (\<forall>v\<in>set (w # pre). ?m v \<longrightarrow> ?c v < bc') \<and>
          (\<forall>v\<in>set post. ?m v \<longrightarrow> ?c v \<le> bc')"
        by auto
      then show ?thesis by blast
    qed
  qed
qed

text \<open>
  C1 (as amended). Among the enrolled users whose comparison reports a match at the
  engine's tolerance with a confidence above zero, recognition selects the one of
  highest confidence, and of several with that confidence the first in the enumeration;
  it is accepted only when that confidence is at least the configured tolerance value.
  Otherwise no user is recognised, and then every matching user has a confidence that
  is not above zero or is below the configured tolerance value.
\<close>

theorem recognize_face_selects:
  "case recognize_face cfg users unk of
     Recognized u c \<Rightarrow>
       (\<exists>pre post. users = pre @ u # post \<and>
          match (compare_faces (face_engine cfg) (face_encoding u) unk None) \<and>
          confidence (compare_faces (face_engine cfg) (face_encoding u) unk None) = c \<and>
          0 < c \<and> FACE_TOLERANCE cfg \<le> c \<and>
          (\<forall>v\<in>set pre.
             match (compare_faces (face_engine cfg) (face_encoding v) unk None) \<longrightarrow>
             confidence (compare_faces (face_engine cfg) (face_encoding v) unk None) < c) \<and>
          (\<forall>v\<in>set post.
             match (compare_faces (face_engine cfg) (face_encoding v) unk None) \<longrightarrow>
             confidence (compare_faces (face_engine cfg) (face_encoding v) unk None) \<le> c))
   | Not_recognized c \<Rightarrow>
       (\<forall>v\<in>set users.
          match (compare_faces (face_engine cfg) (face_encoding v) unk None) \<longrightarrow>
          confidence (compare_faces (face_engine cfg) (face_encoding v) unk None) \<le> 0 \<or>
          confidence (compare_faces (face_engine cfg) (face_encoding v) unk None)
            < FACE_TOLERANCE cfg)"
proof -
  let ?eng = "face_engine cfg"
  let ?m = "\<lambda>v. match (compare_faces ?eng (face_encoding v) unk None)"
  let ?c = "\<lambda>v. confidence (compare_faces ?eng (face_encoding v) unk None)"
  obtain bm bc where run: "best_match_loop ?eng unk users (None, 0) = (bm, bc)"
    by (cases "best_match_loop ?eng unk users (None, 0)") auto
  from best_match_loop_result [OF run] show ?thesis
  proof
    assume a: "bm = None \<and> bc = 0 \<and> (\<forall>v\<in>set users. ?m v \<longrightarrow> ?c v \<le> 0)"
    then have "recognize_face cfg users unk = Not_recognized 0"
      using run by (simp add: recognize_face_def)
    with a show ?thesis by simp
  next
    assume "\<exists>pre u post. users = pre @ u # post \<and> bm = Some u \<and> ?m u \<and> ?c u = bc \<and> 0 < bc \<and>
        (\<forall>v\<in>set pre. ?m v \<longrightarrow> ?c v < bc) \<and> (\<forall>v\<in>set post. ?m v \<longrightarrow> ?c v \<le> bc)"
    then obtain pre u post where h: "users = pre @ u # post" "bm = Some u" "?m u" "?c u = bc"
        "0 < bc" "\<forall>v\<in>set pre. ?m v \<longrightarrow> ?c v < bc" "\<forall>v\<in>set post. ?m v \<longrightarrow> ?c v \<le> bc"
      by blast
    show ?thesis
    proof (cases "FACE_TOLERANCE cfg \<le> bc")
      case True
      then have "recognize_face cfg users unk = Recognized u bc"
        using run h(2) by (simp add: recognize_face_def)
      moreover have "\<exists>pre post. users = pre @ u # post \<and> ?m u \<and> ?c u = bc \<and> 0 < bc \<and>
          FACE_TOLERANCE cfg \<le> bc \<and> (\<forall>v\<in>set pre. ?m v \<longrightarrow> ?c v < bc) \<and>
          (\<forall>v\<in>set post. ?m v \<longrightarrow> ?c v \<le> bc)"
        using h True by blast
      ultimately show ?thesis by simp
    next
      case False
      then have "recognize_face cfg users unk = Not_recognized bc"
        using run h(2) by (simp add: recognize_face_def)
      moreover have "\<forall>v\<in>set users. ?m v \<longrightarrow> ?c v \<le> 0 \<or> ?c v < FACE_TOLERANCE cfg"
      proof
        fix v assume "v \<in> set users"
        with h(1) have "v \<in> set pre \<or> v = u \<or> v \<in> set post" by auto
        with h False show "?m v \<longrightarrow> ?c v \<le> 0 \<or> ?c v < FACE_TOLERANCE cfg"
          by (metis (no_types, lifting) dual_order.strict_trans1 not_less less_imp_le)
      qed
      ultimately show ?thesis by simp
    qed
  qed
qed


text \<open>Four enrolled users at distances 0.3, 0.1, 0.1 and 2 from the submitted
  encoding: the second is recognised, ahead of the third with equal confidence.\<close>

theorem recognize_face_selects_witness:
  "recognize_face default_Config
     [enrolled 1 (3 / 10), enrolled 2 (1 / 10),
      enrolled 3 (- 1 / 10), enrolled 4 2] (enc128 0)
     = Recognized (enrolled 2 (1 / 10)) (9 / 10) \<and>
   (\<exists>pre post.
      [enrolled 1 (3 / 10), enrolled 2 (1 / 10),
       enrolled 3 (- 1 / 10), enrolled 4 2]
        = pre @ enrolled 2 (1 / 10) # post \<and>
      (\<forall>v\<in>set pre.
         match (compare_faces (face_engine default_Config) (face_encoding v) (enc128 0) None) \<longrightarrow>
         confidence (compare_faces (face_engine default_Config) (face_encoding v) (enc128 0) None)
           < 9 / 10) \<and>
      (\<forall>v\<in>set post.
         match (compare_faces (face_engine default_Config) (face_encoding v) (enc128 0) None) \<longrightarrow>
         confidence (compare_faces (face_engine default_Config) (face_encoding v) (enc128 0) None)
           \<le> 9 / 10))"
proof -
  let ?users = "[enrolled 1 (3 / 10), enrolled 2 (1 / 10),
      enrolled 3 (- 1 / 10), enrolled 4 2]"
  have ev: "recognize_face default_Config ?users (enc128 0)
      = Recognized (enrolled 2 (1 / 10)) (9 / 10)"
    by (simp add: recognize_face_def face_engine_def FaceEngine_init_def default_Config_def py_or_def
        enrolled_def compare_faces_def lib_compare_faces_def face_distance_enc128 Let_def)
  from recognize_face_selects [where cfg = default_Config and users = ?users and unk = "enc128 0"]
  have "\<exists>pre post. ?users = pre @ enrolled 2 (1 / 10) # post \<and>
      match (compare_faces (face_engine default_Config)
        (face_encoding (enrolled 2 (1 / 10))) (enc128 0) None) \<and>
      confidence (compare_faces (face_engine default_Config)
        (face_encoding (enrolled 2 (1 / 10))) (enc128 0) None) = 9 / 10 \<and>
      (0 :: real) < 9 / 10 \<and> FACE_TOLERANCE default_Config \<le> 9 / 10 \<and>
      (\<forall>v\<in>set pre.
         match (compare_faces (face_engine default_Config) (face_encoding v) (enc128 0) None) \<longrightarrow>
         confidence (compare_faces (face_engine default_Config) (face_encoding v) (enc128 0) None)
           < 9 / 10) \<and>
      (\<forall>v\<in>set post.
         match (compare_faces (face_engine default_Config) (face_encoding v) (enc128 0) None) \<longrightarrow>
         confidence (compare_faces (face_engine default_Config) (face_encoding v) (enc128 0) None)
           \<le> 9 / 10)"
    unfolding ev recognition.case .
  then show ?thesis
    using ev by blast
qed

text \<open>
  C1 as stated fails. With the default tolerance 0.6, a single enrolled user at distance
  0.5 matches and is the loop's best match, yet is not recognised, because the
  confidence 0.5 is below 0.6. With the tolerance configured as 1.5, a single enrolled
  user at distance 1.2 matches, yet the loop selects nobody, because the confidence is
  not above the initial best confidence of zero.
\<close>

theorem recognize_face_counterexample:
  "match (compare_faces (face_engine default_Config) (enc128 (1 / 2)) (enc128 0) None) \<and>
   best_match_loop (face_engine default_Config) (enc128 0)
       [enrolled 1 (1 / 2)] (None, 0)
     = (Some (enrolled 1 (1 / 2)), 1 / 2) \<and>
   recognize_face default_Config [enrolled 1 (1 / 2)] (enc128 0)
     = Not_recognized (1 / 2) \<and>
   match (compare_faces (face_engine (default_Config\<lparr>FACE_TOLERANCE := 3 / 2\<rparr>))
            (enc128 (6 / 5)) (enc128 0) None) \<and>
   best_match_loop (face_engine (default_Config\<lparr>FACE_TOLERANCE := 3 / 2\<rparr>)) (enc128 0)
       [enrolled 1 (6 / 5)] (None, 0)
     = (None, 0)"
  by (simp add: recognize_face_def face_engine_def FaceEngine_init_def default_Config_def py_or_def
      enrolled_def compare_faces_def lib_compare_faces_def face_distance_enc128 Let_def)

end
